theory Spec2Isabelle
  imports Main
begin

section \<open>Values the handlers of app.js work on\<close>

text \<open>
  The server in \<^verbatim>\<open>src/app.js\<close> is a set of independent request handlers. Each one
  reads an uploaded file from the \<^verbatim>\<open>uploads/\<close> folder, produces a file in the
  \<^verbatim>\<open>compressed/\<close> folder and answers with a download URL and a size. The file
  system is a map from paths to file contents; a handler takes the file system and
  the request and returns the new file system with the response it sent.
\<close>

type_synonym bytes = "char list"

type_synonym filesystem = "string \<rightharpoonup> bytes"

text \<open>
  What a \<^verbatim>\<open>throw\<close> carries: the failures of the calls the handlers make.
  \<^verbatim>\<open>TypeError\<close> is reading a property of \<^verbatim>\<open>undefined\<close>, \<^verbatim>\<open>SyntaxError\<close> is
  \<^verbatim>\<open>JSON.parse\<close> on malformed text, \<^verbatim>\<open>ENOENT\<close> is a file system call on a path
  that does not exist, \<^verbatim>\<open>InvalidPDF\<close> is \<^verbatim>\<open>PDFDocument.load\<close> rejecting its input,
  \<^verbatim>\<open>NotMultipleOf90\<close> is the assertion of \<^verbatim>\<open>setRotation\<close>, \<^verbatim>\<open>EmptyBuffer\<close> is the
  handler's own \<^verbatim>\<open>throw new Error("PDF save failed, empty buffer.")\<close>, and
  \<^verbatim>\<open>ToolFailed\<close> is a rejected promise or error callback of an external tool.
\<close>

datatype js_error =
  TypeError | SyntaxError | ENOENT | InvalidPDF | NotMultipleOf90 | EmptyBuffer | ToolFailed

text \<open>
  The responses: \<^verbatim>\<open>res.json({downloadUrl, size})\<close>, \<^verbatim>\<open>res.json({downloadUrl, finalSize})\<close>
  of the video endpoint, and \<^verbatim>\<open>res.status(code)\<close> followed by \<^verbatim>\<open>send\<close> or \<^verbatim>\<open>json\<close>
  with a message. \<^verbatim>\<open>NoResponse\<close> is a handler that threw outside every \<^verbatim>\<open>try\<close> block before
  it answered.
\<close>

datatype response =
  Download string nat
| DownloadFinal string nat
| Failure nat string
| NoResponse

text \<open>
  A field of the request body that the handler hands to \<^verbatim>\<open>JSON.parse\<close>:
  \<^verbatim>\<open>Absent\<close> when the field is falsy (missing or the empty string), \<^verbatim>\<open>Malformed\<close>
  when \<^verbatim>\<open>JSON.parse\<close> throws on it, \<^verbatim>\<open>Parsed\<close> with the parsed value otherwise.
\<close>

datatype 'a body_field = Absent | Malformed | Parsed 'a

subsection \<open>File system calls\<close>

definition existsSync :: "filesystem \<Rightarrow> string \<Rightarrow> bool" where
  "existsSync fs p = (fs p \<noteq> None)"

definition readFileSync :: "filesystem \<Rightarrow> string \<Rightarrow> js_error + bytes" where
  "readFileSync fs p = (case fs p of None \<Rightarrow> Inl ENOENT | Some d \<Rightarrow> Inr d)"

definition writeFileSync :: "filesystem \<Rightarrow> string \<Rightarrow> bytes \<Rightarrow> filesystem" where
  "writeFileSync fs p d = fs(p \<mapsto> d)"

definition unlinkSync :: "filesystem \<Rightarrow> string \<Rightarrow> js_error + filesystem" where
  "unlinkSync fs p = (case fs p of None \<Rightarrow> Inl ENOENT | Some d \<Rightarrow> Inr (fs(p := None)))"

subsection \<open>Date.now() in a file name\<close>

definition digit_char :: "nat \<Rightarrow> char" where
  "digit_char d = ''0123456789'' ! d"

fun decimal :: "nat \<Rightarrow> string" where
  "decimal n = (if n < 10 then [digit_char n] else decimal (n div 10) @ [digit_char (n mod 10)])"

declare decimal.simps [simp del]

section \<open>The pdf-lib calls the handlers make\<close>

text \<open>
  The handlers build their output with the pdf-lib package (\<^verbatim>\<open>PDFDocument\<close>,
  \<^verbatim>\<open>degrees\<close>). A document is its sequence of pages. A page has the content it was
  loaded with (an opaque identifier, \<^verbatim>\<open>None\<close> for a page created empty), the texts
  drawn on it afterwards, its \<^verbatim>\<open>/Rotate\<close> entry in degrees and its size in hundredths
  of a point.
\<close>

record pdf_page =
  content :: "nat option"
  drawn :: "string list"
  rotate :: int
  width :: nat
  height :: nat

type_synonym pdf_document = "pdf_page list"

text \<open>\<^verbatim>\<open>PDFDocument.create()\<close>: a document without pages.\<close>

definition create :: pdf_document where
  "create = []"

definition getPageCount :: "pdf_document \<Rightarrow> int" where
  "getPageCount doc = int (length doc)"

text \<open>
  \<^verbatim>\<open>dst.copyPages(src, [i])\<close> with one index, destructured as \<^verbatim>\<open>[copiedPage]\<close>:
  pdf-lib reads \<^verbatim>\<open>src.getPages()[i]\<close> and copies its node, with the page's
  rotation and size. Outside \<^verbatim>\<open>0 \<le> i < pageCount\<close> the array read is \<^verbatim>\<open>undefined\<close>
  and taking its \<^verbatim>\<open>node\<close> throws a TypeError.
\<close>

definition copyPages :: "pdf_document \<Rightarrow> int \<Rightarrow> js_error + pdf_page" where
  "copyPages src i =
     (if 0 \<le> i \<and> i < int (length src) then Inr (src ! nat i) else Inl TypeError)"

text \<open>\<^verbatim>\<open>doc.addPage(page)\<close> appends the page.\<close>

definition addPage :: "pdf_document \<Rightarrow> pdf_page \<Rightarrow> pdf_document" where
  "addPage doc p = doc @ [p]"

text \<open>
  \<^verbatim>\<open>doc.addPage()\<close> without an argument appends a new page of pdf-lib's default
  size, A4 (595.28 by 841.89 points), with nothing on it and no rotation.
\<close>

definition newPage :: pdf_page where
  "newPage = \<lparr>content = None, drawn = [], rotate = 0, width = 59528, height = 84189\<rparr>"

text \<open>\<^verbatim>\<open>page.drawText(t)\<close> adds a text to the page.\<close>

definition drawText :: "pdf_page \<Rightarrow> string \<Rightarrow> pdf_page" where
  "drawText p t = p\<lparr>drawn := drawn p @ [t]\<rparr>"

text \<open>
  \<^verbatim>\<open>page.setRotation(degrees(a))\<close>: pdf-lib asserts that the angle is a multiple of
  90 and throws otherwise; then it overwrites the page's \<^verbatim>\<open>/Rotate\<close> entry.
\<close>

definition setRotation :: "pdf_page \<Rightarrow> int \<Rightarrow> js_error + pdf_page" where
  "setRotation p a = (if a mod 90 = 0 then Inr (p\<lparr>rotate := a\<rparr>) else Inl NotMultipleOf90)"

text \<open>
  What a handler gets from outside: the clock (\<^verbatim>\<open>Date.now()\<close>), the parser
  \<^verbatim>\<open>PDFDocument.load\<close> (\<^verbatim>\<open>None\<close> when it throws) and the object writer of pdf-lib,
  which turns the pages of a document into the bytes that follow the file header.
\<close>

record env =
  now :: nat
  load :: "bytes \<Rightarrow> pdf_document option"
  write_objects :: "pdf_document \<Rightarrow> bytes"

text \<open>
  \<^verbatim>\<open>doc.save()\<close> with its default options. pdf-lib runs
  \<^verbatim>\<open>if (addDefaultPage && this.getPageCount() === 0) this.addPage()\<close> first, with
  \<^verbatim>\<open>addDefaultPage\<close> true by default, so a document without pages gets one empty page
  of the default size. Then the writer puts out the header \<^verbatim>\<open>%PDF-1.7\<close> and the
  objects of the document.
\<close>

definition addDefaultPage :: "pdf_document \<Rightarrow> pdf_document" where
  "addDefaultPage doc = (if getPageCount doc = 0 then addPage doc newPage else doc)"

definition save :: "env \<Rightarrow> pdf_document \<Rightarrow> bytes" where
  "save e doc = ''%PDF-1.7'' @ write_objects e (addDefaultPage doc)"

section \<open>POST /organize-pdf\<close>

text \<open>
  An element of the parsed \<^verbatim>\<open>actions\<close> array, as in the handler's comment
  \<^verbatim>\<open>[0, 2, 'blank', 1]\<close>: the string \<^verbatim>\<open>'blank'\<close> or a page index.
\<close>

datatype action = Blank | PageIndex int

record organize_request =
  file_path :: "string option"
  actions :: "action list body_field"

text \<open>
  The \<^verbatim>\<open>for (let action of actions)\<close> loop. \<^verbatim>\<open>newPdf.addPage()\<close> returns the page
  it appended and \<^verbatim>\<open>drawText('')\<close> then writes on that page, so the page in the
  document is the one drawn on.
\<close>

fun organize_pages :: "pdf_document \<Rightarrow> action list \<Rightarrow> pdf_document \<Rightarrow> js_error + pdf_document" where
  "organize_pages originalPdf [] newPdf = Inr newPdf"
| "organize_pages originalPdf (Blank # rest) newPdf =
     organize_pages originalPdf rest (addPage newPdf (drawText newPage ''''))"
| "organize_pages originalPdf (PageIndex i # rest) newPdf =
     (case copyPages originalPdf i of
        Inl e \<Rightarrow> Inl e
      | Inr copiedPage \<Rightarrow> organize_pages originalPdf rest (addPage newPdf copiedPage))"

definition organize_outputPath :: "env \<Rightarrow> string" where
  "organize_outputPath e = ''compressed/organized_'' @ decimal (now e) @ ''.pdf''"

definition organize_downloadUrl :: "env \<Rightarrow> string" where
  "organize_downloadUrl e =
     ''https://file2do-backend.onrender.com/compressed/organized_'' @ decimal (now e) @ ''.pdf''"

text \<open>
  The body of the \<^verbatim>\<open>try\<close> block: the file system when the block ends, with the
  response it sent or the error it threw.
\<close>

definition organize_try :: "env \<Rightarrow> filesystem \<Rightarrow> organize_request \<Rightarrow> filesystem \<times> (js_error + response)" where
  "organize_try e fs req =
     (case file_path req of
        None \<Rightarrow> (fs, Inr (Failure 400 ''Missing file or actions.''))
      | Some inputPath \<Rightarrow>
         (case actions req of
            Absent \<Rightarrow> (fs, Inr (Failure 400 ''Missing file or actions.''))
          | Malformed \<Rightarrow> (fs, Inl SyntaxError)
          | Parsed acts \<Rightarrow>
             (case readFileSync fs inputPath of
                Inl err \<Rightarrow> (fs, Inl err)
              | Inr data \<Rightarrow>
                 (case load e data of
                    None \<Rightarrow> (fs, Inl InvalidPDF)
                  | Some originalPdf \<Rightarrow>
                     (case organize_pages originalPdf acts create of
                        Inl err \<Rightarrow> (fs, Inl err)
                      | Inr newPdf \<Rightarrow>
                         (let pdfBytes = save e newPdf;
                              fs1 = writeFileSync fs (organize_outputPath e) pdfBytes
                          in case unlinkSync fs1 inputPath of
                               Inl err \<Rightarrow> (fs1, Inl err)
                             | Inr fs2 \<Rightarrow>
                                 (fs2, Inr (Download (organize_downloadUrl e) (length pdfBytes)))))))))"

text \<open>
  The \<^verbatim>\<open>catch\<close> block: \<^verbatim>\<open>fs.existsSync(undefined)\<close> is false, so nothing is deleted
  when no file was uploaded.
\<close>

definition catch_cleanup :: "filesystem \<Rightarrow> string option \<Rightarrow> filesystem" where
  "catch_cleanup fs inputPath =
     (case inputPath of
        None \<Rightarrow> fs
      | Some p \<Rightarrow> (if existsSync fs p then (case unlinkSync fs p of Inl err \<Rightarrow> fs | Inr fs' \<Rightarrow> fs') else fs))"

definition organize_pdf :: "env \<Rightarrow> filesystem \<Rightarrow> organize_request \<Rightarrow> filesystem \<times> response" where
  "organize_pdf e fs req =
     (case organize_try e fs req of
        (fs', Inr r) \<Rightarrow> (fs', r)
      | (fs', Inl err) \<Rightarrow> (catch_cleanup fs' (file_path req), Failure 500 ''Failed to organize PDF.''))"

text \<open>What an operation of the list stands for in the output, when it is in range.\<close>

fun in_range :: "pdf_document \<Rightarrow> action \<Rightarrow> bool" where
  "in_range src Blank = True"
| "in_range src (PageIndex i) = (0 \<le> i \<and> i < int (length src))"

fun output_page :: "pdf_document \<Rightarrow> action \<Rightarrow> pdf_page" where
  "output_page src Blank = drawText newPage ''''"
| "output_page src (PageIndex i) = src ! nat i"

definition empty_page :: "pdf_page \<Rightarrow> bool" where
  "empty_page p = (content p = None \<and> concat (drawn p) = [])"

section \<open>POST /rotate-pdf\<close>

text \<open>
  The remainder operator \<^verbatim>\<open>%\<close> of JavaScript on integers: the result has the sign
  of the dividend.
\<close>

definition js_rem :: "int \<Rightarrow> int \<Rightarrow> int" where
  "js_rem a b = sgn a * (\<bar>a\<bar> mod \<bar>b\<bar>)"

text \<open>The handler's \<^verbatim>\<open>(rotation % 360 + 360) % 360\<close>.\<close>

definition normalize_angle :: "int \<Rightarrow> int" where
  "normalize_angle rotation = js_rem (js_rem rotation 360 + 360) 360"

record rotate_action =
  originalIndex :: int
  rotation :: int

record rotate_request =
  rotate_file_path :: "string option"
  rotate_actions :: "rotate_action list body_field"

text \<open>
  The \<^verbatim>\<open>for (const { originalIndex, rotation } of actions)\<close> loop, with its
  \<^verbatim>\<open>continue\<close> on an index at or above the page count.
\<close>

fun rotate_pages :: "pdf_document \<Rightarrow> rotate_action list \<Rightarrow> pdf_document \<Rightarrow> js_error + pdf_document" where
  "rotate_pages originalPdf [] newPdf = Inr newPdf"
| "rotate_pages originalPdf (a # rest) newPdf =
     (if originalIndex a \<ge> getPageCount originalPdf then rotate_pages originalPdf rest newPdf
      else
        (case copyPages originalPdf (originalIndex a) of
           Inl err \<Rightarrow> Inl err
         | Inr copiedPage \<Rightarrow>
            (let angle = normalize_angle (rotation a)
             in case (if angle \<noteq> 0 then setRotation copiedPage angle else Inr copiedPage) of
                  Inl err \<Rightarrow> Inl err
                | Inr page \<Rightarrow> rotate_pages originalPdf rest (addPage newPdf page))))"

definition rotate_outputPath :: "env \<Rightarrow> string" where
  "rotate_outputPath e = ''compressed/rotated_'' @ decimal (now e) @ ''.pdf''"

definition rotate_downloadUrl :: "env \<Rightarrow> string" where
  "rotate_downloadUrl e =
     ''https://file2do-backend.onrender.com/compressed/rotated_'' @ decimal (now e) @ ''.pdf''"

definition rotate_try :: "env \<Rightarrow> filesystem \<Rightarrow> rotate_request \<Rightarrow> filesystem \<times> (js_error + response)" where
  "rotate_try e fs req =
     (case rotate_file_path req of
        None \<Rightarrow> (fs, Inr (Failure 400 ''Missing file or actions.''))
      | Some inputPath \<Rightarrow>
         (case rotate_actions req of
            Absent \<Rightarrow> (fs, Inr (Failure 400 ''Missing file or actions.''))
          | Malformed \<Rightarrow> (fs, Inl SyntaxError)
          | Parsed acts \<Rightarrow>
             (case readFileSync fs inputPath of
                Inl err \<Rightarrow> (fs, Inl err)
              | Inr data \<Rightarrow>
                 (case load e data of
                    None \<Rightarrow> (fs, Inl InvalidPDF)
                  | Some originalPdf \<Rightarrow>
                     (case rotate_pages originalPdf acts create of
                        Inl err \<Rightarrow> (fs, Inl err)
                      | Inr newPdf \<Rightarrow>
                         (let pdfBytes = save e newPdf
                          in if length pdfBytes = 0 then (fs, Inl EmptyBuffer)
                             else
                               (let fs1 = writeFileSync fs (rotate_outputPath e) pdfBytes
                                in case unlinkSync fs1 inputPath of
                                     Inl err \<Rightarrow> (fs1, Inl err)
                                   | Inr fs2 \<Rightarrow>
                                       (fs2, Inr (Download (rotate_downloadUrl e) (length pdfBytes))))))))))"

definition rotate_pdf :: "env \<Rightarrow> filesystem \<Rightarrow> rotate_request \<Rightarrow> filesystem \<times> response" where
  "rotate_pdf e fs req =
     (case rotate_try e fs req of
        (fs', Inr r) \<Rightarrow> (fs', r)
      | (fs', Inl err) \<Rightarrow> (catch_cleanup fs' (rotate_file_path req), Failure 500 ''Failed to rotate PDF.''))"

text \<open>The page an action in range puts into the output.\<close>

definition rotated_page :: "pdf_document \<Rightarrow> rotate_action \<Rightarrow> pdf_page" where
  "rotated_page src a =
     (let p = src ! nat (originalIndex a); angle = normalize_angle (rotation a)
      in if angle \<noteq> 0 then p\<lparr>rotate := angle\<rparr> else p)"

section \<open>The compression level of POST /upload and POST /compress-pdf\<close>

text \<open>
  \<^verbatim>\<open>parseInt(req.body.compression) || 60\<close>. The argument is what \<^verbatim>\<open>parseInt\<close>
  returned: \<^verbatim>\<open>None\<close> for \<^verbatim>\<open>NaN\<close> (a missing or non-numeric field), the integer
  otherwise. \<^verbatim>\<open>||\<close> takes its right operand when the left one is falsy, which
  among numbers are \<^verbatim>\<open>NaN\<close> and \<^verbatim>\<open>0\<close>.
\<close>

definition or_default :: "int option \<Rightarrow> int \<Rightarrow> int" where
  "or_default parsed d = (case parsed of None \<Rightarrow> d | Some n \<Rightarrow> (if n = 0 then d else n))"

text \<open>The first two lines of the image handler after the type check.\<close>

definition upload_quality :: "int option \<Rightarrow> int" where
  "upload_quality parsed = (let compression = or_default parsed 60 in max 10 (100 - compression))"

text \<open>
  The branch the PDF compression handler takes, and the \<^verbatim>\<open>-dPDFSETTINGS\<close> value of
  its Ghostscript command.
\<close>

datatype pdf_method = Extreme | Standard string

definition compress_pdf_method :: "int option \<Rightarrow> pdf_method" where
  "compress_pdf_method parsed =
     (let compression = or_default parsed 60
      in if compression \<ge> 90 then Extreme
         else Standard
           (if compression \<ge> 80 then ''/screen''
            else if compression \<ge> 60 then ''/ebook''
            else if compression \<ge> 40 then ''/printer''
            else ''/prepress''))"

section \<open>POST /upload\<close>

datatype image_format = PNG | JPEG

record upload_request =
  upload_path :: string
  upload_filename :: string
  mimetype :: string
  compression :: "int option"

text \<open>
  The encoder is the sharp package: \<^verbatim>\<open>sharp(inputPath).png({quality}).toFile(outputPath)\<close>
  or the same with \<^verbatim>\<open>jpeg\<close>. It is a parameter here, a function from the format, the
  quality and the input bytes to the output bytes, \<^verbatim>\<open>None\<close> when the promise is
  rejected. A missing input file rejects the promise as well.
\<close>

definition upload_try ::
  "(image_format \<Rightarrow> int \<Rightarrow> bytes \<Rightarrow> bytes option) \<Rightarrow> filesystem \<Rightarrow> upload_request \<Rightarrow> int
     \<Rightarrow> filesystem \<times> (js_error + response)" where
  "upload_try encode fs req quality =
     (let inputPath = upload_path req;
          outputFilename = ''compressed_'' @ upload_filename req;
          outputPath = ''compressed/'' @ outputFilename
      in case fs inputPath of
           None \<Rightarrow> (fs, Inl ToolFailed)
         | Some data \<Rightarrow>
            (case encode (if mimetype req = ''image/png'' then PNG else JPEG) quality data of
               None \<Rightarrow> (fs, Inl ToolFailed)
             | Some out \<Rightarrow>
                (let fs1 = writeFileSync fs outputPath out;
                     sent = Download (''https://file2do-backend.onrender.com/compressed/'' @ outputFilename)
                              (length out)
                 in case unlinkSync fs1 inputPath of
                      Inl err \<Rightarrow> (fs1, Inr sent)
                    | Inr fs2 \<Rightarrow> (fs2, Inr sent))))"

text \<open>
  The handler. When \<^verbatim>\<open>unlinkSync\<close> throws after \<^verbatim>\<open>res.json\<close>, the response is
  already with the client, so it is the response of the request. The \<^verbatim>\<open>catch\<close>
  block only answers.
\<close>

definition upload ::
  "(image_format \<Rightarrow> int \<Rightarrow> bytes \<Rightarrow> bytes option) \<Rightarrow> filesystem \<Rightarrow> upload_request
     \<Rightarrow> filesystem \<times> response" where
  "upload encode fs req =
     (if mimetype req \<notin> set [''image/jpeg'', ''image/png''] then
        (case unlinkSync fs (upload_path req) of
           Inl err \<Rightarrow> (fs, NoResponse)
         | Inr fs' \<Rightarrow> (fs', Failure 400 ''Only JPG and PNG formats are allowed.''))
      else
        (let quality = upload_quality (compression req)
         in case upload_try encode fs req quality of
              (fs', Inr r) \<Rightarrow> (fs', r)
            | (fs', Inl err) \<Rightarrow> (fs', Failure 500 ''Image compression failed.'')))"

section \<open>POST /compress-video\<close>

record video_request =
  video_path :: string
  crf :: "int option"

text \<open>
  The transcoder is the \<^verbatim>\<open>ffmpeg\<close> command run by \<^verbatim>\<open>exec\<close>: a parameter, from the
  \<^verbatim>\<open>-crf\<close> value and the input bytes to the output bytes, \<^verbatim>\<open>None\<close> when the
  callback gets an error. The callback returns on the error before it reaches
  \<^verbatim>\<open>fs.unlinkSync(inputPath)\<close>.
\<close>

definition compress_video ::
  "(int \<Rightarrow> bytes \<Rightarrow> bytes option) \<Rightarrow> env \<Rightarrow> filesystem \<Rightarrow> video_request \<Rightarrow> filesystem \<times> response" where
  "compress_video transcode e fs req =
     (let inputPath = video_path req;
          outputFilename = ''compressed_'' @ decimal (now e) @ ''.mp4'';
          outputPath = ''compressed/'' @ outputFilename;
          crf_value = or_default (crf req) 28
      in case fs inputPath of
           None \<Rightarrow> (fs, Failure 500 ''Video compression failed.'')
         | Some data \<Rightarrow>
            (case transcode crf_value data of
               None \<Rightarrow> (fs, Failure 500 ''Video compression failed.'')
             | Some out \<Rightarrow>
                (let fs1 = writeFileSync fs outputPath out
                 in case unlinkSync fs1 inputPath of
                      Inl err \<Rightarrow> (fs1, NoResponse)
                    | Inr fs2 \<Rightarrow>
                       (case fs2 outputPath of
                          None \<Rightarrow> (fs2, NoResponse)
                        | Some d \<Rightarrow>
                            (fs2, DownloadFinal
                               (''https://file2do-backend.onrender.com/compressed/'' @ outputFilename)
                               (length d))))))"

text \<open>
  An action of the rotate flow whose index is not negative and whose angle is a
  whole number of quarter turns.
\<close>

definition quarter_turn :: "rotate_action \<Rightarrow> bool" where
  "quarter_turn a = (0 \<le> originalIndex a \<and> rotation a mod 90 = 0)"

section \<open>Sample documents and requests\<close>

text \<open>
  A US Letter page with the content \<open>k\<close> and the rotation \<open>r\<close>, a source document
  of five such pages, and an environment whose parser accepts one upload and whose
  writer puts out one byte per page.
\<close>

definition sample_page :: "nat \<Rightarrow> int \<Rightarrow> pdf_page" where
  "sample_page k r = \<lparr>content = Some k, drawn = [], rotate = r, width = 61200, height = 79200\<rparr>"

definition five_pages :: pdf_document where
  "five_pages = [sample_page 0 0, sample_page 1 0, sample_page 2 0, sample_page 3 0, sample_page 4 0]"

definition sample_env :: "pdf_document \<Rightarrow> env" where
  "sample_env doc =
     \<lparr>now = 1700000000000,
      load = (\<lambda>d. if d = ''%PDF-1.7'' then Some doc else None),
      write_objects = (\<lambda>out. replicate (length out) CHR ''p'')\<rparr>"

definition sample_fs :: filesystem where
  "sample_fs = [''uploads/1.pdf'' \<mapsto> ''%PDF-1.7'']"

section \<open>Arithmetic of the rotation angle\<close>

lemma js_rem_nonneg: "0 \<le> a \<Longrightarrow> js_rem a b = a mod \<bar>b\<bar>"
  by (cases "a = 0") (simp_all add: js_rem_def)

lemma js_rem_neg: "a < 0 \<Longrightarrow> js_rem a b = - ((- a) mod \<bar>b\<bar>)"
  by (simp add: js_rem_def)

lemma normalize_angle_mod: "normalize_angle r = r mod 360"
proof (cases "0 \<le> r")
  case True
  then have "js_rem r 360 = r mod 360" by (simp add: js_rem_nonneg)
  moreover have "0 \<le> r mod 360 + 360" by simp
  ultimately show ?thesis by (simp add: normalize_angle_def js_rem_nonneg)
next
  case False
  then have neg: "r < 0" by simp
  have m: "r mod 360 = (if (- r) mod 360 = 0 then 0 else 360 - (- r) mod 360)"
    using zmod_zminus1_eq_if [of "- r" 360] by simp
  have b: "0 \<le> (- r) mod 360" "(- r) mod 360 < 360" by simp_all
  have inner: "js_rem r 360 + 360 = 360 - (- r) mod 360"
    using neg by (simp add: js_rem_neg)
  have nonneg: "0 \<le> 360 - (- r) mod 360" using b by linarith
  have "normalize_angle r = (360 - (- r) mod 360) mod 360"
    unfolding normalize_angle_def inner using nonneg by (simp add: js_rem_nonneg)
  also have "\<dots> = r mod 360"
  proof (cases "(- r) mod 360 = 0")
    case True
    with m show ?thesis by simp
  next
    case False
    with b have "0 \<le> 360 - (- r) mod 360" "360 - (- r) mod 360 < 360" by linarith+
    then have "(360 - (- r) mod 360) mod 360 = 360 - (- r) mod 360" by (rule mod_pos_pos_trivial)
    with m False show ?thesis by simp
  qed
  finally show ?thesis .
qed

lemma normalize_angle_range: "0 \<le> normalize_angle r \<and> normalize_angle r < 360"
  by (simp add: normalize_angle_mod)

section \<open>The page loops\<close>

lemma organize_pages_in_range:
  "list_all (in_range src) ops \<Longrightarrow>
   organize_pages src ops acc = Inr (acc @ map (output_page src) ops)"
proof (induction ops arbitrary: acc)
  case Nil
  show ?case by simp
next
  case (Cons a ops)
  show ?case
  proof (cases a)
    case Blank
    with Cons show ?thesis by (simp add: addPage_def)
  next
    case (PageIndex i)
    with Cons show ?thesis by (simp add: addPage_def copyPages_def)
  qed
qed

lemma empty_page_blank: "empty_page (output_page src Blank)"
  by (simp add: empty_page_def drawText_def newPage_def)

lemma organize_pages_out_of_range:
  "\<not> list_all (in_range src) ops \<Longrightarrow> organize_pages src ops acc = Inl TypeError"
proof (induction ops arbitrary: acc)
  case Nil
  then show ?case by simp
next
  case (Cons a ops)
  show ?case
  proof (cases a)
    case Blank
    with Cons show ?thesis by simp
  next
    case (PageIndex i)
    with Cons show ?thesis by (auto simp add: copyPages_def)
  qed
qed

lemma rotate_pages_skip:
  "list_all quarter_turn acts \<Longrightarrow>
   rotate_pages src acts acc =
     Inr (acc @ map (rotated_page src) (filter (\<lambda>a. originalIndex a < int (length src)) acts))"
proof (induction acts arbitrary: acc)
  case Nil
  show ?case by simp
next
  case (Cons a acts)
  then have head: "quarter_turn a" and rest: "list_all quarter_turn acts"
    by simp_all
  from head have ok: "0 \<le> originalIndex a" "rotation a mod 90 = 0"
    by (simp_all add: quarter_turn_def)
  have m: "normalize_angle (rotation a) mod 90 = 0"
    using ok(2) by (simp add: normalize_angle_mod mod_mod_cancel)
  show ?case
  proof (cases "originalIndex a < int (length src)")
    case False
    with Cons.IH [OF rest] show ?thesis by (simp add: getPageCount_def)
  next
    case True
    with ok m Cons.IH [OF rest] show ?thesis
      by (simp add: getPageCount_def copyPages_def setRotation_def rotated_page_def
          addPage_def Let_def)
  qed
qed

lemma rotate_pages_negative_index:
  "originalIndex a < 0 \<Longrightarrow> rotate_pages src (a # rest) acc = Inl TypeError"
  by (simp add: getPageCount_def copyPages_def)

section \<open>The handlers around the loops\<close>

lemma organize_pdf_assembled:
  assumes "fs p = Some data" and "load e data = Some src"
    and "organize_pages src acts create = Inr newPdf"
  shows "organize_pdf e fs \<lparr>file_path = Some p, actions = Parsed acts\<rparr> =
           ((fs(organize_outputPath e \<mapsto> save e newPdf))(p := None),
            Download (organize_downloadUrl e) (length (save e newPdf)))"
  using assms
  by (simp add: organize_pdf_def organize_try_def readFileSync_def writeFileSync_def
      unlinkSync_def Let_def)

lemma organize_pdf_thrown:
  assumes "fs p = Some data" and "load e data = Some src"
    and "organize_pages src acts create = Inl err"
  shows "organize_pdf e fs \<lparr>file_path = Some p, actions = Parsed acts\<rparr> =
           (fs(p := None), Failure 500 ''Failed to organize PDF.'')"
  using assms
  by (simp add: organize_pdf_def organize_try_def readFileSync_def catch_cleanup_def
      existsSync_def unlinkSync_def)

lemma rotate_pdf_thrown:
  assumes "fs p = Some data" and "load e data = Some src"
    and "rotate_pages src acts create = Inl err"
  shows "rotate_pdf e fs \<lparr>rotate_file_path = Some p, rotate_actions = Parsed acts\<rparr> =
           (fs(p := None), Failure 500 ''Failed to rotate PDF.'')"
  using assms
  by (simp add: rotate_pdf_def rotate_try_def readFileSync_def catch_cleanup_def
      existsSync_def unlinkSync_def)

text \<open>
  The serialization always starts with the header, so the test of the rotate
  handler for an empty buffer never fires.
\<close>

lemma save_nonempty: "save e doc \<noteq> [] \<and> 8 \<le> length (save e doc)"
  by (simp add: save_def)

lemma save_pages: "doc \<noteq> [] \<Longrightarrow> save e doc = ''%PDF-1.7'' @ write_objects e doc"
  by (simp add: save_def addDefaultPage_def getPageCount_def)

lemma save_no_pages: "save e [] = ''%PDF-1.7'' @ write_objects e [newPage]"
  by (simp add: save_def addDefaultPage_def getPageCount_def addPage_def)

lemma rotate_pdf_assembled:
  assumes "fs p = Some data" and "load e data = Some src"
    and "rotate_pages src acts create = Inr newPdf"
  shows "rotate_pdf e fs \<lparr>rotate_file_path = Some p, rotate_actions = Parsed acts\<rparr> =
           ((fs(rotate_outputPath e \<mapsto> save e newPdf))(p := None),
            Download (rotate_downloadUrl e) (length (save e newPdf)))"
  using assms save_nonempty [of e newPdf]
  by (simp add: rotate_pdf_def rotate_try_def readFileSync_def writeFileSync_def
      unlinkSync_def Let_def)

lemma sample_load: "load (sample_env doc) ''%PDF-1.7'' = Some doc"
  by (simp add: sample_env_def)

lemma sample_fs_upload: "sample_fs ''uploads/1.pdf'' = Some ''%PDF-1.7''"
  by (simp add: sample_fs_def)

section \<open>Claims\<close>

text \<open>
  C1, as the flow has it. For every source document and every operation list of
  length N that is not empty and holds only page indices in range and blank
  markers, the reorganize flow produces a document of exactly N pages in the order
  of the list: a page index gives the source page it names, a blank marker gives
  an empty page. Serialization adds no page to it: the handler writes the header
  and the objects of these N pages, deletes the upload and answers with the URL
  and the size.
\<close>

theorem organize_in_range_order:
  assumes "list_all (in_range src) ops" and "ops \<noteq> []"
    and "fs p = Some data" and "load e data = Some src"
  shows "organize_pages src ops create = Inr (map (output_page src) ops)
     \<and> length (map (output_page src) ops) = length ops
     \<and> empty_page (output_page src Blank)
     \<and> addDefaultPage (map (output_page src) ops) = map (output_page src) ops
     \<and> organize_pdf e fs \<lparr>file_path = Some p, actions = Parsed ops\<rparr> =
         ((fs(organize_outputPath e \<mapsto>
                ''%PDF-1.7'' @ write_objects e (map (output_page src) ops)))(p := None),
          Download (organize_downloadUrl e)
            (8 + length (write_objects e (map (output_page src) ops))))"
proof -
  have pages: "organize_pages src ops create = Inr (map (output_page src) ops)"
    using organize_pages_in_range [OF assms(1), of create] by (simp add: create_def)
  have ne: "map (output_page src) ops \<noteq> []"
    using assms(2) by simp
  have keep: "addDefaultPage (map (output_page src) ops) = map (output_page src) ops"
    using assms(2) by (simp add: addDefaultPage_def getPageCount_def)
  have blank: "empty_page (output_page src Blank)"
    by (simp add: empty_page_def drawText_def newPage_def)
  from organize_pdf_assembled [where fs = fs and p = p, OF assms(3) assms(4) pages]
  have "organize_pdf e fs \<lparr>file_path = Some p, actions = Parsed ops\<rparr> =
         ((fs(organize_outputPath e \<mapsto>
                ''%PDF-1.7'' @ write_objects e (map (output_page src) ops)))(p := None),
          Download (organize_downloadUrl e)
            (8 + length (write_objects e (map (output_page src) ops))))"
    by (simp add: save_pages [OF ne])
  with pages keep blank show ?thesis by simp
qed

theorem organize_in_range_order_witness:
  "list_all (in_range five_pages) [PageIndex 2, Blank, PageIndex 0]
   \<and> [PageIndex 2, Blank, PageIndex 0] \<noteq> []
   \<and> sample_fs ''uploads/1.pdf'' = Some ''%PDF-1.7''
   \<and> load (sample_env five_pages) ''%PDF-1.7'' = Some five_pages
   \<and> organize_pages five_pages [PageIndex 2, Blank, PageIndex 0] create
       = Inr [sample_page 2 0, drawText newPage '''', sample_page 0 0]
   \<and> organize_pdf (sample_env five_pages) sample_fs
        \<lparr>file_path = Some ''uploads/1.pdf'', actions = Parsed [PageIndex 2, Blank, PageIndex 0]\<rparr>
       = ([organize_outputPath (sample_env five_pages) \<mapsto> ''%PDF-1.7ppp''],
          Download (organize_downloadUrl (sample_env five_pages)) 11)"
proof -
  have r: "list_all (in_range five_pages) [PageIndex 2, Blank, PageIndex 0]"
    by (simp add: five_pages_def)
  have n: "[PageIndex 2, Blank, PageIndex 0] \<noteq> []"
    by simp
  have m: "map (output_page five_pages) [PageIndex 2, Blank, PageIndex 0]
             = [sample_page 2 0, drawText newPage '''', sample_page 0 0]"
    by (simp add: five_pages_def)
  have w: "write_objects (sample_env five_pages)
             [sample_page 2 0, drawText newPage '''', sample_page 0 0] = ''ppp''"
    by (simp add: sample_env_def)
  have o: "organize_outputPath (sample_env five_pages) \<noteq> ''uploads/1.pdf''"
    by (simp add: organize_outputPath_def)
  from organize_in_range_order [where fs = sample_fs and p = "''uploads/1.pdf''",
      OF r n sample_fs_upload sample_load [of five_pages]]
    r sample_fs_upload sample_load [of five_pages] o
  show ?thesis unfolding m w by (simp add: sample_fs_def fun_upd_twist)
qed

text \<open>
  C1 as stated fails at the operation list of length 0: the loop leaves the
  document without pages, \<open>save()\<close> adds a default page before it writes, and the
  file in the results folder is the serialization of a document of one page.
\<close>

theorem organize_no_operations_counterexample:
  "list_all (in_range five_pages) [] \<and> length ([] :: action list) = 0
   \<and> organize_pages five_pages [] create = Inr []
   \<and> fst (organize_pdf (sample_env five_pages) sample_fs
            \<lparr>file_path = Some ''uploads/1.pdf'', actions = Parsed []\<rparr>)
         ''compressed/organized_1700000000000.pdf''
       = Some (''%PDF-1.7'' @ write_objects (sample_env five_pages) [newPage])
   \<and> length [newPage] = 1"
proof -
  have d: "decimal 1700000000000 = ''1700000000000''"
    by (simp add: decimal.simps digit_char_def)
  have o: "organize_outputPath (sample_env five_pages) = ''compressed/organized_1700000000000.pdf''"
    by (simp add: organize_outputPath_def sample_env_def d)
  have t: "organize_pages five_pages [] create = Inr []"
    by (simp add: create_def)
  from organize_pdf_assembled [where fs = sample_fs and p = "''uploads/1.pdf''",
      OF sample_fs_upload sample_load [of five_pages] t] t
  show ?thesis by (simp add: o save_no_pages)
qed

text \<open>
  C2, as the handler has it. For a page index in range and an angle that is a whole
  number of quarter turns, the rotate flow copies the page and, when the
  normalized angle \<open>((angle % 360) + 360) % 360\<close> is not 0, sets the page's rotation
  to it, whatever rotation the source page had; when the normalized angle is 0 the
  handler does not call \<open>setRotation\<close> and the copy keeps the rotation of the source
  page. The normalized angle is the angle modulo 360, between 0 and 359.
\<close>

theorem rotate_sets_normalized_angle:
  assumes "0 \<le> i" and "i < int (length src)" and "angle mod 90 = 0"
  shows "rotate_pages src [\<lparr>originalIndex = i, rotation = angle\<rparr>] create =
           Inr [if normalize_angle angle \<noteq> 0
                then (src ! nat i)\<lparr>rotate := normalize_angle angle\<rparr>
                else src ! nat i]
     \<and> normalize_angle angle = angle mod 360
     \<and> 0 \<le> normalize_angle angle \<and> normalize_angle angle < 360"
proof -
  have q: "list_all quarter_turn [\<lparr>originalIndex = i, rotation = angle\<rparr>]"
    using assms by (simp add: quarter_turn_def)
  from rotate_pages_skip [OF q, of src create] assms(2) show ?thesis
    by (simp add: create_def rotated_page_def Let_def normalize_angle_mod)
qed

theorem rotate_sets_normalized_angle_witness:
  "(0::int) \<le> 0 \<and> (0::int) < int (length [sample_page 0 180]) \<and> (-90::int) mod 90 = 0
   \<and> rotate_pages [sample_page 0 180] [\<lparr>originalIndex = 0, rotation = -90\<rparr>] create
       = Inr [sample_page 0 270]
   \<and> normalize_angle (-90) = 270"
proof -
  have a: "(0::int) \<le> 0" by simp
  have b: "(0::int) < int (length [sample_page 0 180])" by simp
  have c: "(-90::int) mod 90 = 0" by simp
  have n: "normalize_angle (-90) = 270" by (simp add: normalize_angle_mod)
  from rotate_sets_normalized_angle [OF a b c] a b c show ?thesis
    unfolding n by (simp add: sample_page_def)
qed

text \<open>
  C2 as stated fails: a source page that is already rotated by 90 degrees and an
  angle of 360 give an output page rotated by 90 degrees, not by the normalized
  angle 0.
\<close>

theorem rotate_full_turn_counterexample:
  "rotate_pages [sample_page 0 90] [\<lparr>originalIndex = 0, rotation = 360\<rparr>] create
     = Inr [sample_page 0 90]
   \<and> rotate (sample_page 0 90) = 90 \<and> normalize_angle 360 = 0"
  by (simp add: create_def getPageCount_def copyPages_def normalize_angle_mod addPage_def
      sample_page_def)

text \<open>
  An angle that is not a whole number of quarter turns is rejected by
  \<open>setRotation\<close>, and the loop ends with that error.
\<close>

lemma rotate_pages_not_quarter_turn:
  assumes "0 \<le> originalIndex a" and "originalIndex a < int (length src)"
    and "rotation a mod 90 \<noteq> 0"
  shows "rotate_pages src (a # rest) acc = Inl NotMultipleOf90"
proof -
  have "normalize_angle (rotation a) mod 90 = rotation a mod 90"
    by (simp add: normalize_angle_mod mod_mod_cancel)
  with assms have "normalize_angle (rotation a) mod 90 \<noteq> 0" "normalize_angle (rotation a) \<noteq> 0"
    by auto
  with assms show ?thesis
    by (simp add: getPageCount_def copyPages_def setRotation_def Let_def)
qed

text \<open>
  C3, at an input where the handler does not do what the claim says. The
  source has one page; the first action has the index -1, the second is in range.
  The guard \<open>originalIndex >= originalPdf.getPageCount()\<close> lets -1 through,
  \<open>copyPages\<close> throws, and the request ends with status 500 and no output file,
  where the claim has the first action skipped and the second page written.
\<close>

theorem rotate_negative_index_aborts:
  "rotate_pdf (sample_env [sample_page 0 0]) sample_fs
     \<lparr>rotate_file_path = Some ''uploads/1.pdf'',
      rotate_actions = Parsed [\<lparr>originalIndex = -1, rotation = 0\<rparr>,
                               \<lparr>originalIndex = 0, rotation = 90\<rparr>]\<rparr>
     = (Map.empty, Failure 500 ''Failed to rotate PDF.'')"
proof -
  have t: "rotate_pages [sample_page 0 0]
             [\<lparr>originalIndex = -1, rotation = 0\<rparr>, \<lparr>originalIndex = 0, rotation = 90\<rparr>] create
           = Inl TypeError"
    by (rule rotate_pages_negative_index) simp
  from rotate_pdf_thrown [where fs = sample_fs and p = "''uploads/1.pdf''",
      OF sample_fs_upload sample_load t]
  show ?thesis by (simp add: sample_fs_def)
qed

text \<open>
  The part of C3 the handler does: among actions with indices that are not
  negative and angles that are whole quarter turns, those at or above the page
  count are left out and the others give their pages in the order of the list.
\<close>

lemma rotate_skips_high_index:
  "rotate_pages [sample_page 0 0]
     [\<lparr>originalIndex = 1, rotation = 0\<rparr>, \<lparr>originalIndex = 0, rotation = 90\<rparr>] create
   = Inr [sample_page 0 90]"
  by (simp add: create_def getPageCount_def copyPages_def normalize_angle_mod addPage_def
      setRotation_def sample_page_def)

text \<open>
  C4, as the handler has it. In the reorganize flow a page index out of range is
  not skipped: \<open>copyPages\<close> throws on it, the \<open>catch\<close> block deletes the upload and
  the request ends with status 500; no output file is written, whatever valid
  operations the list holds besides.
\<close>

theorem organize_out_of_range_aborts:
  assumes "\<not> list_all (in_range src) ops" and "fs p = Some data" and "load e data = Some src"
  shows "organize_pages src ops create = Inl TypeError
     \<and> organize_pdf e fs \<lparr>file_path = Some p, actions = Parsed ops\<rparr> =
         (fs(p := None), Failure 500 ''Failed to organize PDF.'')"
proof -
  have t: "organize_pages src ops create = Inl TypeError"
    using assms(1) by (rule organize_pages_out_of_range)
  from organize_pdf_thrown [where fs = fs and p = p, OF assms(2) assms(3) t] t
  show ?thesis by simp
qed

theorem organize_out_of_range_aborts_witness:
  "\<not> list_all (in_range five_pages) [PageIndex 0, PageIndex 5, Blank]
   \<and> sample_fs ''uploads/1.pdf'' = Some ''%PDF-1.7''
   \<and> load (sample_env five_pages) ''%PDF-1.7'' = Some five_pages
   \<and> organize_pdf (sample_env five_pages) sample_fs
        \<lparr>file_path = Some ''uploads/1.pdf'', actions = Parsed [PageIndex 0, PageIndex 5, Blank]\<rparr>
       = (Map.empty, Failure 500 ''Failed to organize PDF.'')"
proof -
  have r: "\<not> list_all (in_range five_pages) [PageIndex 0, PageIndex 5, Blank]"
    by (simp add: five_pages_def)
  from organize_out_of_range_aborts [where fs = sample_fs and p = "''uploads/1.pdf''",
      OF r sample_fs_upload sample_load] r sample_fs_upload sample_load
  show ?thesis by (simp add: sample_fs_def)
qed

text \<open>
  C4 as stated fails: with a source of one page and the operations 5 and 0, the
  loop ends with the error of the first operation and the request with status
  500, where the claim has the page of the second operation in the output.
\<close>

theorem organize_skip_counterexample:
  "organize_pages [sample_page 0 0] [PageIndex 5, PageIndex 0] create = Inl TypeError
   \<and> organize_pages [sample_page 0 0] [PageIndex 5, PageIndex 0] create \<noteq> Inr [sample_page 0 0]
   \<and> snd (organize_pdf (sample_env [sample_page 0 0]) sample_fs
            \<lparr>file_path = Some ''uploads/1.pdf'', actions = Parsed [PageIndex 5, PageIndex 0]\<rparr>)
       = Failure 500 ''Failed to organize PDF.''"
  by (simp add: organize_pdf_def organize_try_def readFileSync_def sample_fs_def sample_env_def
      copyPages_def create_def)

text \<open>
  C5, as the flow has it. For every source document, the reorganize flow accepts
  the empty operation list: the loop adds no page, \<open>save()\<close> adds one empty page of
  the default size, and the serialization of that one-page document, which is
  never empty, is written to the results folder; the upload is deleted and the
  response carries the URL and the size of the serialization.
\<close>

theorem organize_empty_list:
  assumes "fs p = Some data" and "load e data = Some src"
  shows "organize_pages src [] create = Inr []
     \<and> save e [] = ''%PDF-1.7'' @ write_objects e [newPage]
     \<and> save e [] \<noteq> []
     \<and> empty_page newPage
     \<and> organize_pdf e fs \<lparr>file_path = Some p, actions = Parsed []\<rparr> =
         ((fs(organize_outputPath e \<mapsto> ''%PDF-1.7'' @ write_objects e [newPage]))(p := None),
          Download (organize_downloadUrl e) (8 + length (write_objects e [newPage])))"
proof -
  have t: "organize_pages src [] create = Inr []" by (simp add: create_def)
  have b: "empty_page newPage" by (simp add: empty_page_def newPage_def)
  from organize_pdf_assembled [where fs = fs and p = p, OF assms t] t b
  show ?thesis by (simp add: save_no_pages)
qed

theorem organize_empty_list_witness:
  "sample_fs ''uploads/1.pdf'' = Some ''%PDF-1.7''
   \<and> load (sample_env five_pages) ''%PDF-1.7'' = Some five_pages
   \<and> organize_pdf (sample_env five_pages) sample_fs
        \<lparr>file_path = Some ''uploads/1.pdf'', actions = Parsed []\<rparr>
       = ([''compressed/organized_1700000000000.pdf'' \<mapsto> ''%PDF-1.7p''],
          Download ''https://file2do-backend.onrender.com/compressed/organized_1700000000000.pdf'' 9)"
proof -
  have d: "decimal 1700000000000 = ''1700000000000''"
    by (simp add: decimal.simps digit_char_def)
  have o: "organize_outputPath (sample_env five_pages) = ''compressed/organized_1700000000000.pdf''"
    by (simp add: organize_outputPath_def sample_env_def d)
  have u: "organize_downloadUrl (sample_env five_pages)
             = ''https://file2do-backend.onrender.com/compressed/organized_1700000000000.pdf''"
    by (simp add: organize_downloadUrl_def sample_env_def d)
  have w: "write_objects (sample_env five_pages) [newPage] = ''p''"
    by (simp add: sample_env_def)
  from organize_empty_list [where fs = sample_fs and p = "''uploads/1.pdf''",
      OF sample_fs_upload sample_load [of five_pages]] sample_fs_upload sample_load [of five_pages]
  show ?thesis by (simp add: o u w sample_fs_def fun_upd_twist)
qed

text \<open>
  C5 as stated fails: for the empty operation list the bytes written are those of
  a document with one page. With the sample writer, which puts out one byte per
  page, they differ from what a document without pages would give.
\<close>

theorem organize_zero_page_counterexample:
  "save (sample_env five_pages) [] = ''%PDF-1.7p''
   \<and> save (sample_env five_pages) [] = save (sample_env five_pages) [newPage]
   \<and> ''%PDF-1.7'' @ write_objects (sample_env five_pages) [] = ''%PDF-1.7''
   \<and> snd (organize_pdf (sample_env five_pages) sample_fs
            \<lparr>file_path = Some ''uploads/1.pdf'', actions = Parsed []\<rparr>)
       = Download (organize_downloadUrl (sample_env five_pages)) 9"
  by (simp add: organize_pdf_def organize_try_def readFileSync_def writeFileSync_def unlinkSync_def
      sample_fs_def sample_env_def create_def save_def addDefaultPage_def getPageCount_def
      addPage_def Let_def)

section \<open>The upload on the failure paths\<close>

lemma upload_catch_keeps_file:
  assumes "mimetype req = ''image/jpeg'' \<or> mimetype req = ''image/png''"
    and "fs (upload_path req) = Some data"
    and "\<And>f q. encode f q data = None"
  shows "upload encode fs req = (fs, Failure 500 ''Image compression failed.'')"
  using assms by (auto simp add: upload_def upload_try_def Let_def)

lemma compress_video_error_keeps_file:
  assumes "fs (video_path req) = Some data" and "\<And>c. transcode c data = None"
  shows "compress_video transcode e fs req = (fs, Failure 500 ''Video compression failed.'')"
  using assms by (simp add: compress_video_def Let_def)

lemma organize_missing_actions_keeps_file:
  "organize_pdf e fs \<lparr>file_path = Some p, actions = Absent\<rparr> =
     (fs, Failure 400 ''Missing file or actions.'')"
  by (simp add: organize_pdf_def organize_try_def)

text \<open>
  C8, at inputs where the handlers do not do what the claim says. An upload
  declared as JPEG that the encoder rejects: the \<open>catch\<close> block of the image
  handler answers with status 500 and the file stays in the uploads folder. A
  video that the transcoder rejects: the callback returns with status 500 before
  it reaches the deletion, and the file stays as well.
\<close>

theorem failure_leaves_upload:
  "upload (\<lambda>f q d. None) [''uploads/1.jpg'' \<mapsto> ''junk'']
     \<lparr>upload_path = ''uploads/1.jpg'', upload_filename = ''1.jpg'',
      mimetype = ''image/jpeg'', compression = Some 50\<rparr>
     = ([''uploads/1.jpg'' \<mapsto> ''junk''], Failure 500 ''Image compression failed.'')
   \<and> compress_video (\<lambda>c d. None) (sample_env []) [''uploads/2.mp4'' \<mapsto> ''junk'']
        \<lparr>video_path = ''uploads/2.mp4'', crf = None\<rparr>
     = ([''uploads/2.mp4'' \<mapsto> ''junk''], Failure 500 ''Video compression failed.'')"
  by (simp add: upload_def upload_try_def compress_video_def Let_def)

section \<open>The compression level\<close>

text \<open>
  C9, as the handler has it. The rasterize-and-reassemble branch is taken exactly
  when the compression field parses to an integer of at least 90. Otherwise the
  Ghostscript branch is taken, with \<open>/screen\<close> from 80 to 89, \<open>/ebook\<close> from 60 to 79,
  \<open>/printer\<close> from 40 to 59 and \<open>/prepress\<close> below 40 except at 0: a field that is
  missing, not numeric or 0 counts as 60 and gives \<open>/ebook\<close>.
\<close>

theorem compress_pdf_method_bands:
  "(compress_pdf_method parsed = Extreme) = (\<exists>n. parsed = Some n \<and> 90 \<le> n)
   \<and> compress_pdf_method None = Standard ''/ebook''
   \<and> compress_pdf_method (Some 0) = Standard ''/ebook''
   \<and> compress_pdf_method (Some n) =
       (if n = 0 then Standard ''/ebook''
        else if 90 \<le> n then Extreme
        else if 80 \<le> n then Standard ''/screen''
        else if 60 \<le> n then Standard ''/ebook''
        else if 40 \<le> n then Standard ''/printer''
        else Standard ''/prepress'')"
  by (cases parsed) (simp_all add: compress_pdf_method_def or_default_def Let_def)

theorem compress_pdf_method_bands_witness:
  "compress_pdf_method (Some 95) = Extreme
   \<and> compress_pdf_method (Some 85) = Standard ''/screen''
   \<and> compress_pdf_method (Some 60) = Standard ''/ebook''
   \<and> compress_pdf_method (Some 45) = Standard ''/printer''
   \<and> compress_pdf_method (Some 10) = Standard ''/prepress''
   \<and> compress_pdf_method (Some (-5)) = Standard ''/prepress''"
  using compress_pdf_method_bands [of "Some 95" 95] compress_pdf_method_bands [of None 85]
    compress_pdf_method_bands [of None 60] compress_pdf_method_bands [of None 45]
    compress_pdf_method_bands [of None 10] compress_pdf_method_bands [of None "-5"]
  by simp

text \<open>
  C9 as stated fails at the compression level 0: it parses to an integer below 40,
  and the handler takes \<open>/ebook\<close>, not \<open>/prepress\<close>.
\<close>

theorem compress_pdf_zero_counterexample:
  "compress_pdf_method (Some 0) = Standard ''/ebook''
   \<and> compress_pdf_method (Some 0) \<noteq> Standard ''/prepress''"
  by (simp add: compress_pdf_method_def or_default_def)

text \<open>
  C10, as the handler has it. The quality handed to the encoder is
  \<open>max(10, 100 - compression)\<close>, where the compression level is 60 when the field
  is missing, not numeric or 0, and the parsed integer otherwise; so the quality
  is never below 10, however large the requested level, and the handler's answer
  does not depend on what the encoder does at a quality below 10.
\<close>

theorem upload_quality_floor:
  "upload_quality parsed =
     max 10 (100 - (case parsed of None \<Rightarrow> 60 | Some n \<Rightarrow> (if n = 0 then 60 else n)))
   \<and> 10 \<le> upload_quality parsed
   \<and> ((\<forall>f q d. 10 \<le> q \<longrightarrow> encode f q d = encode' f q d)
        \<longrightarrow> upload encode fs req = upload encode' fs req)"
proof -
  have q: "10 \<le> upload_quality c" for c
    by (simp add: upload_quality_def Let_def)
  have "upload encode fs req = upload encode' fs req"
    if "\<forall>f q d. 10 \<le> q \<longrightarrow> encode f q d = encode' f q d"
  proof -
    from that q have "encode f (upload_quality (compression req)) d
        = encode' f (upload_quality (compression req)) d" for f d
      by blast
    then have "upload_try encode fs req (upload_quality (compression req))
        = upload_try encode' fs req (upload_quality (compression req))"
      by (simp add: upload_try_def Let_def split: option.split)
    then show ?thesis
      by (simp add: upload_def Let_def)
  qed
  then show ?thesis
    by (simp add: upload_quality_def or_default_def Let_def split: option.split)
qed

theorem upload_quality_floor_witness:
  "upload_quality (Some 1000) = 10 \<and> upload_quality (Some 30) = 70 \<and> upload_quality None = 40
   \<and> upload (\<lambda>f q d. if q < 10 then None else Some ''out'') [''uploads/1.jpg'' \<mapsto> ''in'']
        \<lparr>upload_path = ''uploads/1.jpg'', upload_filename = ''1.jpg'',
         mimetype = ''image/jpeg'', compression = Some 1000\<rparr>
     = upload (\<lambda>f q d. Some ''out'') [''uploads/1.jpg'' \<mapsto> ''in'']
        \<lparr>upload_path = ''uploads/1.jpg'', upload_filename = ''1.jpg'',
         mimetype = ''image/jpeg'', compression = Some 1000\<rparr>"
proof -
  have h: "\<forall>f q d. (10::int) \<le> q \<longrightarrow>
         (if q < 10 then None else Some ''out'') = (Some ''out'' :: bytes option)"
    by simp
  from upload_quality_floor [of "Some 1000" "\<lambda>f q d. if q < 10 then None else Some ''out''"
      "\<lambda>f q d. Some ''out''"]
    upload_quality_floor [of "Some 30" "\<lambda>f q d. None" "\<lambda>f q d. None"]
    upload_quality_floor [of None "\<lambda>f q d. None" "\<lambda>f q d. None"] h
  show ?thesis by simp
qed

text \<open>
  C10 as stated fails at the compression level 0: the field is neither missing nor
  non-numeric, \<open>max(10, 100 - 0)\<close> is 100, and the handler computes the quality 40.
\<close>

theorem upload_quality_zero_counterexample:
  "upload_quality (Some 0) = 40 \<and> upload_quality (Some 0) \<noteq> max 10 (100 - 0)"
  by (simp add: upload_quality_def or_default_def)

end
